theory Spec2Isabelle
  imports Main
begin

section \<open>Data model of the controller gRPC service\<close>

text \<open>
  The embedding follows \<^verbatim>\<open>controller-grpc/controller.go\<close>. Go's \<^verbatim>\<open>error\<close> values are
  values of \<open>err\<close>: \<open>ErrorString\<close> is what \<^verbatim>\<open>errors.New\<close> and \<^verbatim>\<open>fmt.Errorf\<close> build (an
  error with a message and no gRPC status code), \<open>StatusError\<close> is an error that carries a
  gRPC status code.
\<close>

datatype code = Aborted | DeadlineExceeded | FailedPrecondition | Unavailable | Internal | Unknown

datatype err = ErrorString string | StatusError code string

fun codeName :: "code \<Rightarrow> string" where
  "codeName Aborted = ''Aborted''"
| "codeName DeadlineExceeded = ''DeadlineExceeded''"
| "codeName FailedPrecondition = ''FailedPrecondition''"
| "codeName Unavailable = ''Unavailable''"
| "codeName Internal = ''Internal''"
| "codeName Unknown = ''Unknown''"

text \<open>\<^verbatim>\<open>err.Error()\<close>: the message of an error.\<close>

fun Error :: "err \<Rightarrow> string" where
  "Error (ErrorString s) = s"
| "Error (StatusError c s) = ''rpc error: code = '' @ codeName c @ '' desc = '' @ s"

text \<open>
  What a call does: it returns a value, it never returns (it waits on a channel that
  delivers nothing more), or it panics.
\<close>

datatype 'a outcome = Return 'a | Blocked | Panic

text \<open>A Go map from strings to strings (labels, meta).\<close>

type_synonym labels = "string \<rightharpoonup> string"

subsection \<open>Events\<close>

text \<open>
  \<^verbatim>\<open>ct.Event\<close>. The id is an \<^verbatim>\<open>int64\<close> that the handlers only compare and copy, so it is
  an \<open>int\<close>. The payload \<^verbatim>\<open>Data\<close> is the JSON text.
\<close>

record event =
  ev_ID :: int
  ev_AppID :: string
  ev_ObjectType :: string
  ev_ObjectID :: string
  ev_Op :: string
  ev_Data :: string
  ev_CreatedAt :: nat

text \<open>
  Modelled from the spec: the constants of the package \<^verbatim>\<open>controller/types\<close>, which is not
  part of this file. The spec's data model gives the tags \<^verbatim>\<open>app\<close>, \<^verbatim>\<open>app_deletion\<close>,
  \<^verbatim>\<open>app_release\<close>, \<^verbatim>\<open>release\<close>, \<^verbatim>\<open>deployment\<close>, \<^verbatim>\<open>scale_request\<close>, the operations \<^verbatim>\<open>create\<close>
  and \<^verbatim>\<open>update\<close>, and the scale request states \<^verbatim>\<open>pending\<close>, \<^verbatim>\<open>complete\<close>, \<^verbatim>\<open>cancelled\<close>.
\<close>

abbreviation EventTypeApp :: string where "EventTypeApp \<equiv> ''app''"
abbreviation EventTypeAppDeletion :: string where "EventTypeAppDeletion \<equiv> ''app_deletion''"
abbreviation EventTypeAppRelease :: string where "EventTypeAppRelease \<equiv> ''app_release''"
abbreviation EventTypeRelease :: string where "EventTypeRelease \<equiv> ''release''"
abbreviation EventTypeDeployment :: string where "EventTypeDeployment \<equiv> ''deployment''"
abbreviation EventTypeScaleRequest :: string where "EventTypeScaleRequest \<equiv> ''scale_request''"
abbreviation EventOpCreate :: string where "EventOpCreate \<equiv> ''create''"
abbreviation EventOpUpdate :: string where "EventOpUpdate \<equiv> ''update''"

subsection \<open>Entities\<close>

text \<open>\<^verbatim>\<open>ct.App\<close> (the stored app) and \<^verbatim>\<open>protobuf.App\<close> (its projection on the wire).\<close>

record ct_App =
  ct_app_ID :: string
  ct_app_Name :: string
  ct_app_Meta :: labels

record pb_App =
  app_Name :: string
  app_Labels :: labels
  app_Strategy :: string
  app_DeployTimeout :: int

text \<open>\<^verbatim>\<open>ct.ScaleRequest\<close> and \<^verbatim>\<open>protobuf.ScaleRequest\<close>.\<close>

record ct_ScaleRequest =
  sr_ID :: string
  sr_AppID :: string
  sr_ReleaseID :: string
  sr_State :: string
  sr_NewProcesses :: "(string \<rightharpoonup> int) option"
  sr_NewTags :: "(string \<rightharpoonup> labels) option"

record pb_ScaleRequest =
  scale_Name :: string
  scale_State :: string

text \<open>\<^verbatim>\<open>protobuf.Release\<close>: the handlers read its name and its labels.\<close>

record pb_Release =
  rel_Name :: string
  rel_Labels :: labels

text \<open>
  \<^verbatim>\<open>ct.Deployment\<close>, \<^verbatim>\<open>ct.DeploymentEvent\<close>, \<^verbatim>\<open>ct.ExpandedDeployment\<close> and the projection
  \<^verbatim>\<open>protobuf.ExpandedDeployment\<close>, with the fields the handlers read or write.
\<close>

record ct_Deployment =
  d_ID :: string
  d_AppID :: string
  d_NewReleaseID :: string
  d_Status :: string

record ct_DeploymentEvent =
  de_Status :: string
  de_JobType :: string
  de_JobState :: string
  de_Error :: string

record ct_ExpandedDeployment =
  xd_ID :: string
  xd_Status :: string
  xd_Type :: string

record pb_ExpandedDeployment =
  pxd_Name :: string
  pxd_Status :: string
  pxd_Type :: string

record pb_Deployment =
  pd_Name :: string
  pd_Status :: string

subsection \<open>Page tokens and requests\<close>

text \<open>\<^verbatim>\<open>data.PageToken\<close>: \<^verbatim>\<open>BeforeID\<close> is a \<^verbatim>\<open>*string\<close>.\<close>

record PageToken =
  pt_BeforeID :: "string option"
  pt_Size :: int

text \<open>
  The request messages. \<^verbatim>\<open>StreamScalesRequest\<close> has the paging fields, the name filters
  and the two stream flags; \<^verbatim>\<open>StreamAppsRequest\<close> and \<^verbatim>\<open>StreamReleasesRequest\<close> add label
  filters, \<^verbatim>\<open>StreamDeploymentsRequest\<close> adds type filters. \<^verbatim>\<open>PageSize\<close> is an \<^verbatim>\<open>int32\<close>
  converted to \<^verbatim>\<open>int\<close> before use.
\<close>

record StreamScalesRequest =
  req_PageSize :: int
  req_PageToken :: string
  req_NameFilters :: "string list"
  req_StreamUpdates :: bool
  req_StreamCreates :: bool

record StreamAppsRequest = StreamScalesRequest +
  req_LabelFilters :: "labels list"

type_synonym StreamReleasesRequest = StreamAppsRequest

record StreamDeploymentsRequest = StreamScalesRequest +
  req_TypeFilters :: "string list"



subsection \<open>Responses\<close>

text \<open>
  What a handler sends on its stream. The four \<^verbatim>\<open>Stream*Response\<close> messages differ in
  the type of their items only.
\<close>

record 'a StreamResponse =
  resp_Items :: "'a list"
  resp_NextPageToken :: string
  resp_PageComplete :: bool


section \<open>Collaborators\<close>

text \<open>
  The packages \<^verbatim>\<open>utils\<close>, \<^verbatim>\<open>protobuf\<close>, \<^verbatim>\<open>data\<close> (page tokens) and \<^verbatim>\<open>encoding/json\<close> are
  not part of this file: their functions are the fields of \<open>utils\<close>, and every definition
  below takes them as an argument. A decoder is \<open>None\<close> where \<^verbatim>\<open>json.Unmarshal\<close> returns
  an error. \<open>FormatNoArgs\<close> is \<^verbatim>\<open>fmt.Sprintf\<close> applied to a format with no further
  argument, \<open>ScaleTimeoutSeconds\<close> the text of \<^verbatim>\<open>ct.DefaultScaleTimeout.Seconds()\<close> under
  the verb \<^verbatim>\<open>%.f\<close>, \<open>FormatInt\<close> the text of an integer under \<^verbatim>\<open>%d\<close>.
\<close>

record utils =
  ParseIDFromName :: "string \<Rightarrow> string \<Rightarrow> string"
  ParseIDsFromNameFilters :: "string list \<Rightarrow> string \<Rightarrow> string list"
  ParseAppIDsFromNameFilters :: "string list \<Rightarrow> string list"
  ParseReleaseIDsFromNameFilters :: "string list \<Rightarrow> string list"
  MatchLabelFilters :: "labels \<Rightarrow> labels list \<Rightarrow> bool"
  MatchReleaseType :: "string list \<Rightarrow> string \<Rightarrow> bool"
  ConvertApp :: "ct_App \<Rightarrow> pb_App"
  ConvertError :: "err \<Rightarrow> string \<Rightarrow> err"
  ConvertScaleRequest :: "ct_ScaleRequest \<Rightarrow> pb_ScaleRequest"
  ConvertExpandedDeployment :: "ct_ExpandedDeployment \<Rightarrow> pb_ExpandedDeployment"
  ConvertDeployment :: "ct_Deployment \<Rightarrow> pb_Deployment"
  ConvertDeploymentEventJobState :: "string \<Rightarrow> string"
  TimestampProto :: "nat \<Rightarrow> nat"
  ParsePageToken :: "string \<Rightarrow> err + PageToken"
  TokenString :: "PageToken option \<Rightarrow> string"
  BeforeIDInt64 :: "PageToken \<Rightarrow> int option"
  FormatInt :: "int \<Rightarrow> string"
  FormatNoArgs :: "string \<Rightarrow> string"
  ScaleTimeoutSeconds :: string
  jsonApp :: "string \<Rightarrow> ct_App option"
  jsonScaleRequest :: "string \<Rightarrow> ct_ScaleRequest option"
  jsonRelease :: "string \<Rightarrow> pb_Release option"
  jsonDeploymentEvent :: "string \<Rightarrow> ct_DeploymentEvent option"

text \<open>
  The repos and the event bus of the package \<^verbatim>\<open>data\<close> answer as the fields of \<open>repos\<close>
  say. \<open>Listen_err\<close> is the result of \<^verbatim>\<open>EventListener.Listen\<close>; \<open>Subscribe_err n a\<close> is
  the error, if any, of the bus's \<^verbatim>\<open>Subscribe\<close> for the app id \<open>a\<close> when \<open>n\<close> subscribers
  have been created before; \<open>sub_Err n\<close> is the field \<^verbatim>\<open>Err\<close> of subscriber \<open>n\<close> when it is
  closed.
\<close>

record ListScaleRequestOptions =
  lso_PageToken :: PageToken
  lso_AppIDs :: "string list"
  lso_ReleaseIDs :: "string list"
  lso_ScaleIDs :: "string list"

record ListDeploymentOptions =
  ldo_PageToken :: PageToken
  ldo_AppIDs :: "string list"
  ldo_DeploymentIDs :: "string list"

datatype field_value = VLabels labels | VString string | VInt int

record repos =
  Listen_err :: "err option"
  Subscribe_err :: "nat \<Rightarrow> string \<Rightarrow> err option"
  sub_Err :: "nat \<Rightarrow> err option"
  appRepo_ListPage :: "PageToken \<Rightarrow> err + ct_App list \<times> PageToken option"
  appRepo_Update :: "string \<Rightarrow> (string \<rightharpoonup> field_value) \<Rightarrow> err + ct_App"
  formationRepo_AddScaleRequest :: "ct_ScaleRequest \<Rightarrow> err + ct_ScaleRequest"
  formationRepo_ListScaleRequests ::
    "ListScaleRequestOptions \<Rightarrow> err + ct_ScaleRequest list \<times> PageToken option"
  eventRepo_LegacyListEvents ::
    "string list \<Rightarrow> string list \<Rightarrow> int option \<Rightarrow> int \<Rightarrow> err + event list"
  deploymentRepo_ListPage ::
    "ListDeploymentOptions \<Rightarrow> err + ct_ExpandedDeployment list \<times> PageToken option"
  deploymentRepo_GetExpanded :: "string \<Rightarrow> err + ct_ExpandedDeployment"
  deploymentRepo_Get :: "string \<Rightarrow> err + ct_Deployment"
  deploymentRepo_Add :: "string \<Rightarrow> string \<Rightarrow> err + ct_Deployment"

section \<open>The event bus and the subscription handle\<close>

text \<open>
  The state a handler works on: whether the shared listener of \<^verbatim>\<open>Config\<close> is there and
  open, the bus subscribers that are open, how many were ever created, and the log of
  what the handler did to its collaborators and sent on its stream (\<open>'r\<close> is the type of
  the messages of the stream), in the order it did it.
\<close>

record subscriber =
  sub_id :: nat
  sub_appID :: string
  sub_objectTypes :: "string list"
  sub_objectIDs :: "string list"

datatype 'r action =
    ActListen
  | ActSubscribe subscriber
  | ActClose nat
  | ActQuery string
  | ActAddScaleRequest ct_ScaleRequest
  | ActAddDeployment string string
  | ActSend 'r

record 'r world =
  w_listening :: bool
  w_subs :: "subscriber list"
  w_next :: nat
  w_log :: "'r action list"

definition logAction :: "'r action \<Rightarrow> 'r world \<Rightarrow> 'r world" where
  "logAction a w = w\<lparr>w_log := w_log w @ [a]\<rparr>"

text \<open>
  \<^verbatim>\<open>maybeStartEventListener\<close>: the listener that is there and open is reused, otherwise a
  new one is made and started. The result is the error of \<^verbatim>\<open>Listen\<close>.
\<close>

definition maybeStartEventListener :: "repos \<Rightarrow> 'r world \<Rightarrow> err option \<times> 'r world" where
  "maybeStartEventListener r w =
     (if w_listening w then (None, w)
      else (Listen_err r, logAction ActListen (w\<lparr>w_listening := (Listen_err r = None)\<rparr>)))"

text \<open>
  Modelled from the spec: \<^verbatim>\<open>data.EventListener.Subscribe\<close> and \<^verbatim>\<open>data.EventSubscriber.Close\<close>
  are not part of this file. By the spec, \<^verbatim>\<open>subscribe\<close> returns a subscriber or an error,
  and \<^verbatim>\<open>close\<close> unregisters the subscriber and closes its channel. A subscriber that was
  returned stays in \<open>w_subs\<close> until it is closed.
\<close>

definition Subscribe ::
  "repos \<Rightarrow> string \<Rightarrow> string list \<Rightarrow> string list \<Rightarrow> 'r world \<Rightarrow> (err + subscriber) \<times> 'r world" where
  "Subscribe r appID objectTypes objectIDs w =
     (case Subscribe_err r (w_next w) appID of
        Some e \<Rightarrow> (Inl e, w)
      | None \<Rightarrow>
          (let sub = \<lparr>sub_id = w_next w, sub_appID = appID, sub_objectTypes = objectTypes,
                      sub_objectIDs = objectIDs\<rparr>
           in (Inr sub, logAction (ActSubscribe sub)
                 (w\<lparr>w_subs := w_subs w @ [sub], w_next := Suc (w_next w)\<rparr>))))"

definition subscriber_Close :: "subscriber \<Rightarrow> 'r world \<Rightarrow> 'r world" where
  "subscriber_Close sub w =
     logAction (ActClose (sub_id sub))
       (w\<lparr>w_subs := filter (\<lambda>s. sub_id s \<noteq> sub_id sub) (w_subs w)\<rparr>)"

text \<open>
  The handle \<^verbatim>\<open>EventListener\<close> of this file: its subscribers and its error. Its channel
  \<^verbatim>\<open>Events\<close> is what the handlers receive from, given to them as a list of receive results:
  \<open>Some e\<close> is an event, \<open>None\<close> is the closed channel (\<^verbatim>\<open>ok\<close> is false), and at the end
  of the list the receive waits forever.
\<close>

record handle =
  h_subs :: "subscriber list"
  h_Err :: "err option"

text \<open>
  The loop of \<^verbatim>\<open>subscribeEvents\<close> over the app ids: the first \<^verbatim>\<open>Subscribe\<close> that fails ends
  the call with its error.
\<close>

fun subscribeLoop ::
  "repos \<Rightarrow> string list \<Rightarrow> string list \<Rightarrow> string list \<Rightarrow> subscriber list \<Rightarrow> 'r world
    \<Rightarrow> (err + subscriber list) \<times> 'r world" where
  "subscribeLoop r objectTypes objectIDs [] subs w = (Inr subs, w)"
| "subscribeLoop r objectTypes objectIDs (appID # appIDs) subs w =
     (case Subscribe r appID objectTypes objectIDs w of
        (Inl e, w') \<Rightarrow> (Inl e, w')
      | (Inr sub, w') \<Rightarrow> subscribeLoop r objectTypes objectIDs appIDs (subs @ [sub]) w')"

definition subscribeEvents ::
  "repos \<Rightarrow> string list \<Rightarrow> string list \<Rightarrow> string list \<Rightarrow> 'r world \<Rightarrow> (err + handle) \<times> 'r world" where
  "subscribeEvents r appIDs objectTypes objectIDs w =
     (case maybeStartEventListener r w of
        (Some e, w1) \<Rightarrow> (Inl e, w1)
      | (None, w1) \<Rightarrow>
          (let appIDs = (if length appIDs = 0 then [''''] else appIDs)
           in case subscribeLoop r objectTypes objectIDs appIDs [] w1 of
                (Inl e, w2) \<Rightarrow> (Inl e, w2)
              | (Inr subs, w2) \<Rightarrow> (Inr \<lparr>h_subs = subs, h_Err = None\<rparr>, w2)))"

text \<open>
  \<^verbatim>\<open>EventListener.Close\<close>: every subscriber is closed, and the first error found on one is
  kept (\<^verbatim>\<open>errOnce\<close>).
\<close>

fun closeLoop :: "repos \<Rightarrow> subscriber list \<Rightarrow> handle \<Rightarrow> 'r world \<Rightarrow> handle \<times> 'r world" where
  "closeLoop r [] h w = (h, w)"
| "closeLoop r (sub # subs) h w =
     (let w = subscriber_Close sub w;
          h = (case sub_Err r (sub_id sub) of
                 Some e \<Rightarrow> (if h_Err h = None then h\<lparr>h_Err := Some e\<rparr> else h)
               | None \<Rightarrow> h)
      in closeLoop r subs h w)"

definition Close :: "repos \<Rightarrow> handle \<Rightarrow> 'r world \<Rightarrow> handle \<times> 'r world" where
  "Close r h w = closeLoop r (h_subs h) h w"

text \<open>
  \<^verbatim>\<open>defer sub.Close()\<close>: when the body returns or panics, the handle is closed; when the
  body never returns, it is not. The value returned was computed before.
\<close>

definition deferClose :: "repos \<Rightarrow> handle \<Rightarrow> 'a outcome \<times> 'r world \<Rightarrow> 'a outcome \<times> 'r world" where
  "deferClose r h res =
     (case res of
        (Blocked, w) \<Rightarrow> (Blocked, w)
      | (out, w) \<Rightarrow> (out, snd (Close r h w)))"

text \<open>The test of the stream flags against the operation of an event.\<close>

definition opMatches :: "bool \<Rightarrow> bool \<Rightarrow> event \<Rightarrow> bool" where
  "opMatches streamCreates streamUpdates event =
     ((streamCreates \<and> ev_Op event = EventOpCreate) \<or> (streamUpdates \<and> ev_Op event = EventOpUpdate))"

section \<open>listApps and StreamApps\<close>

text \<open>
  The loop of \<^verbatim>\<open>listApps\<close> over the apps of one page: an app is kept when the name filters
  are empty or name it by id or by name, and its meta matches the label filters; the loop
  stops when \<^verbatim>\<open>n\<close> reaches the page size.
\<close>

fun filterApps ::
  "utils \<Rightarrow> labels list \<Rightarrow> string list \<Rightarrow> int \<Rightarrow> ct_App list \<Rightarrow> pb_App list \<Rightarrow> int
    \<Rightarrow> pb_App list \<times> int" where
  "filterApps u labelFilters appIDs pageSize [] apps n = (apps, n)"
| "filterApps u labelFilters appIDs pageSize (a # ctApps) apps n =
     (if appIDs \<noteq> [] \<and> \<not> (ct_app_ID a \<in> set appIDs \<or> ct_app_Name a \<in> set appIDs)
      then filterApps u labelFilters appIDs pageSize ctApps apps n
      else if \<not> MatchLabelFilters u (ct_app_Meta a) labelFilters
      then filterApps u labelFilters appIDs pageSize ctApps apps n
      else (let apps = apps @ [ConvertApp u a]; n = n + 1
            in if n = pageSize then (apps, n)
               else filterApps u labelFilters appIDs pageSize ctApps apps n))"

text \<open>
  \<^verbatim>\<open>listApps\<close> calls itself on the next page, and nothing in this file bounds the number
  of pages a repo hands out: the first argument is the number of calls allowed, and a
  call that needs more never returns (\<open>None\<close>). The recursive call is made with the
  request's own page size and the next page token; when it fails, its error is dropped
  and the apps found so far are returned.
\<close>

fun listApps ::
  "nat \<Rightarrow> utils \<Rightarrow> repos \<Rightarrow> StreamAppsRequest \<Rightarrow> 'r world
    \<Rightarrow> (err + pb_App list \<times> PageToken option) option \<times> 'r world" where
  "listApps 0 u r req w = (None, w)"
| "listApps (Suc fuel) u r req w =
     (let pageSize = req_PageSize req
      in case ParsePageToken u (req_PageToken req) of
           Inl e \<Rightarrow> (Some (Inl e), w)
         | Inr pageToken \<Rightarrow>
             (let pageToken = (if pageSize > 0 then pageToken\<lparr>pt_Size := pageSize\<rparr> else pageToken);
                  pageSize = (if pageSize > 0 then pageSize else pt_Size pageToken);
                  w = logAction (ActQuery ''appRepo.ListPage'') w
              in case appRepo_ListPage r pageToken of
                   Inl e \<Rightarrow> (Some (Inl e), w)
                 | Inr (ctApps, nextPageToken) \<Rightarrow>
                     (let pageSize = (if pageSize = 0 then int (length ctApps) else pageSize);
                          appIDs = ParseAppIDsFromNameFilters u (req_NameFilters req);
                          (apps, n) = filterApps u (req_LabelFilters req) appIDs pageSize ctApps [] 0
                      in if n < pageSize \<and> nextPageToken \<noteq> None
                         then (case listApps fuel u r
                                      (req\<lparr>req_PageToken := TokenString u nextPageToken\<rparr>) w of
                                 (None, w') \<Rightarrow> (None, w')
                               | (Some (Inl e), w') \<Rightarrow> (Some (Inr (apps, nextPageToken)), w')
                               | (Some (Inr (nextApps, npt)), w') \<Rightarrow>
                                   (Some (Inr (nextApps @ apps, npt)), w'))
                         else (Some (Inr (apps, nextPageToken)), w))))"

text \<open>
  What the live loop of \<^verbatim>\<open>StreamApps\<close> does with one event: the app to send, if any.
  Events of the types \<^verbatim>\<open>app_deletion\<close> and \<^verbatim>\<open>app_release\<close> send nothing.
\<close>

definition appsLiveStep :: "utils \<Rightarrow> StreamAppsRequest \<Rightarrow> event \<Rightarrow> pb_App option" where
  "appsLiveStep u req event =
     (if ev_ObjectType event = EventTypeApp
      then (case jsonApp u (ev_Data event) of
              None \<Rightarrow> None
            | Some ctApp \<Rightarrow>
                (let app = ConvertApp u ctApp;
                     shouldSend = opMatches (req_StreamCreates req) (req_StreamUpdates req) event;
                     shouldSend = (if \<not> MatchLabelFilters u (app_Labels app) (req_LabelFilters req)
                                   then False else shouldSend)
                 in if shouldSend then Some app else None))
      else None)"

text \<open>
  The live loop: the events that were forwarded, each with the app sent for it, and
  whether the loop was left (the channel was closed).
\<close>

fun appsLive ::
  "utils \<Rightarrow> StreamAppsRequest \<Rightarrow> event option list \<Rightarrow> (event \<times> pb_App) list
    \<Rightarrow> (event \<times> pb_App) list \<times> bool" where
  "appsLive u req [] sent = (sent, False)"
| "appsLive u req (None # chan) sent = (sent, True)"
| "appsLive u req (Some event # chan) sent =
     (case appsLiveStep u req event of
        None \<Rightarrow> appsLive u req chan sent
      | Some app \<Rightarrow> appsLive u req chan (sent @ [(event, app)]))"

definition liveResponse :: "'a \<Rightarrow> 'a StreamResponse" where
  "liveResponse x = \<lparr>resp_Items = [x], resp_NextPageToken = '''', resp_PageComplete = False\<rparr>"

definition pageResponse :: "utils \<Rightarrow> 'a list \<Rightarrow> PageToken option \<Rightarrow> 'a StreamResponse" where
  "pageResponse u xs nextPageToken =
     \<lparr>resp_Items = xs, resp_NextPageToken = TokenString u nextPageToken, resp_PageComplete = True\<rparr>"

definition logSends :: "'a list \<Rightarrow> 'a StreamResponse world \<Rightarrow> 'a StreamResponse world" where
  "logSends xs w = w\<lparr>w_log := w_log w @ map (\<lambda>x. ActSend (liveResponse x)) xs\<rparr>"

text \<open>
  The part of \<^verbatim>\<open>StreamApps\<close> after the subscription: the snapshot, the first response and,
  unless the request is unary, the live loop. \<open>sub\<close> is the handle, \<open>None\<close> for a unary
  request.
\<close>

definition StreamApps_body ::
  "nat \<Rightarrow> utils \<Rightarrow> repos \<Rightarrow> StreamAppsRequest \<Rightarrow> event option list \<Rightarrow> handle option
    \<Rightarrow> pb_App StreamResponse world \<Rightarrow> err option outcome \<times> pb_App StreamResponse world" where
  "StreamApps_body fuel u r req chan sub w =
     (case listApps fuel u r req w of
        (None, w) \<Rightarrow> (Blocked, w)
      | (Some (Inl e), w) \<Rightarrow> (Return (Some e), w)
      | (Some (Inr (apps, nextPageToken)), w) \<Rightarrow>
          (let w = logAction (ActSend (pageResponse u apps nextPageToken)) w
           in case sub of
                None \<Rightarrow> (Return None, w)
              | Some sub \<Rightarrow>
                  (case appsLive u req chan [] of
                     (sent, closed) \<Rightarrow>
                       (let w = logSends (map snd sent) w
                        in if \<not> closed then (Blocked, w)
                           else case h_Err sub of
                                  Some e \<Rightarrow> (Return (Some (ConvertError u e (Error e))), w)
                                | None \<Rightarrow> (Return None, w)))))"

definition StreamApps ::
  "nat \<Rightarrow> utils \<Rightarrow> repos \<Rightarrow> StreamAppsRequest \<Rightarrow> event option list
    \<Rightarrow> pb_App StreamResponse world \<Rightarrow> err option outcome \<times> pb_App StreamResponse world" where
  "StreamApps fuel u r req chan w =
     (let unary = \<not> (req_StreamUpdates req \<or> req_StreamCreates req)
      in if \<not> unary
         then (let appIDs = ParseAppIDsFromNameFilters u (req_NameFilters req)
               in case subscribeEvents r appIDs
                         [EventTypeApp, EventTypeAppDeletion, EventTypeAppRelease] [] w of
                    (Inl e, w) \<Rightarrow> (Return (Some e), w)
                  | (Inr sub, w) \<Rightarrow>
                      deferClose r sub (StreamApps_body fuel u r req chan (Some sub) w))
         else StreamApps_body fuel u r req chan None w)"

section \<open>UpdateApp\<close>

text \<open>
  The values of the \<^verbatim>\<open>map[string]interface{}\<close> that UpdateApp hands to the app repo are
  labels, a string, or an \<^verbatim>\<open>int32\<close> (only ever compared with 0 here, so an \<open>int\<close>):
  the type \<open>field_value\<close> above.
  \<^verbatim>\<open>req.GetUpdateMask()\<close> is a pointer: \<open>None\<close> is the nil mask, \<open>Some paths\<close> a mask
  with these paths.
\<close>

record UpdateAppRequest =
  uar_App :: pb_App
  uar_UpdateMask :: "string list option"

text \<open>The map built before the mask is looked at.\<close>

definition appData :: "pb_App \<Rightarrow> (string \<rightharpoonup> field_value)" where
  "appData app =
     (let data = [''meta'' \<mapsto> VLabels (app_Labels app)];
          data = (if app_Strategy app \<noteq> '''' then data(''strategy'' \<mapsto> VString (app_Strategy app))
                  else data);
          data = (if app_DeployTimeout app > 0
                  then data(''deploy_timeout'' \<mapsto> VInt (app_DeployTimeout app)) else data)
      in data)"

text \<open>The loop over the mask's paths, filling \<^verbatim>\<open>maskedData\<close>.\<close>

fun maskData :: "(string \<rightharpoonup> field_value) \<Rightarrow> string list \<Rightarrow> (string \<rightharpoonup> field_value)
    \<Rightarrow> (string \<rightharpoonup> field_value)" where
  "maskData data [] maskedData = maskedData"
| "maskData data (path # paths) maskedData =
     (let path = (if path = ''labels'' then ''meta'' else path)
      in case data path of
           Some v \<Rightarrow> maskData data paths (maskedData(path \<mapsto> v))
         | None \<Rightarrow> maskData data paths maskedData)"

text \<open>The map passed to \<^verbatim>\<open>appRepo.Update\<close>: the fields that are written.\<close>

definition updateAppData :: "UpdateAppRequest \<Rightarrow> (string \<rightharpoonup> field_value)" where
  "updateAppData req =
     (let data = appData (uar_App req)
      in case uar_UpdateMask req of
           None \<Rightarrow> data
         | Some paths \<Rightarrow> if length paths > 0 then maskData data paths Map.empty else data)"

definition UpdateApp :: "utils \<Rightarrow> repos \<Rightarrow> UpdateAppRequest \<Rightarrow> err + pb_App" where
  "UpdateApp u r req =
     (case appRepo_Update r (ParseIDFromName u (app_Name (uar_App req)) ''apps'')
             (updateAppData req) of
        Inl e \<Rightarrow> Inl (ConvertError u e (Error e))
      | Inr ctApp \<Rightarrow> Inr (ConvertApp u ctApp))"

text \<open>
  The claim's reading of "the non-zero fields of the app projection", in the spec's words:
  a field is written exactly when its value is not the zero value of its type.
\<close>

definition nonZeroFields :: "pb_App \<Rightarrow> string set" where
  "nonZeroFields app =
     (if app_Labels app \<noteq> Map.empty then {''meta''} else {}) \<union>
     (if app_Strategy app \<noteq> '''' then {''strategy''} else {}) \<union>
     (if app_DeployTimeout app \<noteq> 0 then {''deploy_timeout''} else {})"

text \<open>The alias applied to a mask path.\<close>

definition maskAlias :: "string \<Rightarrow> string" where
  "maskAlias path = (if path = ''labels'' then ''meta'' else path)"

section \<open>createScale and StreamScales\<close>








text \<open>The closure \<^verbatim>\<open>unmarshalScaleRequest\<close> of \<^verbatim>\<open>StreamScales\<close>.\<close>

definition unmarshalScaleRequest :: "utils \<Rightarrow> event \<Rightarrow> pb_ScaleRequest option" where
  "unmarshalScaleRequest u event =
     (case jsonScaleRequest u (ev_Data event) of
        None \<Rightarrow> None
      | Some ctReq \<Rightarrow> Some (ConvertScaleRequest u ctReq))"

text \<open>
  The test of a live scale request against the name filters. The three maps
  \<^verbatim>\<open>releaseIDsMap\<close>, \<^verbatim>\<open>appIDsMap\<close> and \<^verbatim>\<open>scaleIDsMap\<close> hold the ids as keys: they are sets.
  The result is whether the scale request is sent.
\<close>

definition scaleNameFilter ::
  "utils \<Rightarrow> string set \<Rightarrow> string set \<Rightarrow> string set \<Rightarrow> pb_ScaleRequest \<Rightarrow> bool" where
  "scaleNameFilter u releaseIDsMap appIDsMap scaleIDsMap scale =
     (let releaseIDMatches =
            (if releaseIDsMap \<noteq> {}
             then ParseIDFromName u (scale_Name scale) ''releases'' \<in> releaseIDsMap else False);
          appIDMatches =
            (if appIDsMap \<noteq> {}
             then ParseIDFromName u (scale_Name scale) ''apps'' \<in> appIDsMap else False);
          scaleIDMatches =
            (if scaleIDsMap \<noteq> {}
             then ParseIDFromName u (scale_Name scale) ''scales'' \<in> scaleIDsMap else False)
      in if \<not> (releaseIDMatches \<or> appIDMatches \<or> scaleIDMatches)
         then (if releaseIDsMap \<noteq> {} \<or> appIDsMap \<noteq> {} \<or> scaleIDsMap \<noteq> {} then False else True)
         else True)"

text \<open>
  One round of the live loop of \<^verbatim>\<open>StreamScales\<close>: the new value of \<^verbatim>\<open>currID\<close> and the scale
  request to send, if any.
\<close>

definition scalesLiveStep ::
  "utils \<Rightarrow> StreamScalesRequest \<Rightarrow> string set \<Rightarrow> string set \<Rightarrow> string set \<Rightarrow> int \<Rightarrow> event
    \<Rightarrow> int \<times> pb_ScaleRequest option" where
  "scalesLiveStep u req releaseIDsMap appIDsMap scaleIDsMap currID event =
     (if ev_ID event \<le> currID then (currID, None)
      else (let currID = ev_ID event
            in if \<not> opMatches (req_StreamCreates req) (req_StreamUpdates req) event
               then (currID, None)
               else case unmarshalScaleRequest u event of
                      None \<Rightarrow> (currID, None)
                    | Some scale \<Rightarrow>
                        if scaleNameFilter u releaseIDsMap appIDsMap scaleIDsMap scale
                        then (currID, Some scale) else (currID, None)))"

fun scalesLive ::
  "utils \<Rightarrow> StreamScalesRequest \<Rightarrow> string set \<Rightarrow> string set \<Rightarrow> string set \<Rightarrow> int
    \<Rightarrow> event option list \<Rightarrow> (event \<times> pb_ScaleRequest) list
    \<Rightarrow> (event \<times> pb_ScaleRequest) list \<times> bool" where
  "scalesLive u req rs aps ss currID [] sent = (sent, False)"
| "scalesLive u req rs aps ss currID (None # chan) sent = (sent, True)"
| "scalesLive u req rs aps ss currID (Some event # chan) sent =
     (case scalesLiveStep u req rs aps ss currID event of
        (currID, None) \<Rightarrow> scalesLive u req rs aps ss currID chan sent
      | (currID, Some scale) \<Rightarrow> scalesLive u req rs aps ss currID chan (sent @ [(event, scale)]))"

text \<open>
  The arguments of the subscription of \<^verbatim>\<open>StreamScales\<close>: the app ids and the scale ids of
  the name filters, or neither when the name filters hold a release id.
\<close>

definition streamScalesSubscription ::
  "utils \<Rightarrow> StreamScalesRequest \<Rightarrow> string list \<times> string list" where
  "streamScalesSubscription u req =
     (let appIDs = ParseIDsFromNameFilters u (req_NameFilters req) ''apps'';
          releaseIDs = ParseIDsFromNameFilters u (req_NameFilters req) ''releases'';
          scaleIDs = ParseIDsFromNameFilters u (req_NameFilters req) ''scales''
      in if length releaseIDs > 0 then ([], []) else (appIDs, scaleIDs))"

definition StreamScales ::
  "utils \<Rightarrow> repos \<Rightarrow> StreamScalesRequest \<Rightarrow> event option list
    \<Rightarrow> pb_ScaleRequest StreamResponse world
    \<Rightarrow> err option outcome \<times> pb_ScaleRequest StreamResponse world" where
  "StreamScales u r req chan w =
     (let unary = \<not> (req_StreamUpdates req \<or> req_StreamCreates req);
          pageSize = req_PageSize req
      in case ParsePageToken u (req_PageToken req) of
           Inl e \<Rightarrow> (Return (Some e), w)
         | Inr pageToken \<Rightarrow>
             (let pageToken = (if pageSize > 0 then pageToken\<lparr>pt_Size := pageSize\<rparr> else pageToken);
                  appIDs = ParseIDsFromNameFilters u (req_NameFilters req) ''apps'';
                  releaseIDs = ParseIDsFromNameFilters u (req_NameFilters req) ''releases'';
                  scaleIDs = ParseIDsFromNameFilters u (req_NameFilters req) ''scales'';
                  (streamAppIDs, streamScaleIDs) = streamScalesSubscription u req
              in case subscribeEvents r streamAppIDs [EventTypeScaleRequest] streamScaleIDs w of
                   (Inl e, w) \<Rightarrow> (Return (Some e), w)
                 | (Inr sub, w) \<Rightarrow>
                     deferClose r sub
                       (let w = logAction (ActQuery ''formationRepo.ListScaleRequests'') w
                        in case formationRepo_ListScaleRequests r
                                  \<lparr>lso_PageToken = pageToken, lso_AppIDs = appIDs,
                                   lso_ReleaseIDs = releaseIDs, lso_ScaleIDs = scaleIDs\<rparr> of
                             Inl e \<Rightarrow> (Return (Some e), w)
                           | Inr (list, nextPageToken) \<Rightarrow>
                               (let scaleRequests = map (ConvertScaleRequest u) list;
                                    w = logAction
                                          (ActSend (pageResponse u scaleRequests nextPageToken)) w
                                in if unary then (Return None, w)
                                   else case scalesLive u req (set releaseIDs) (set appIDs)
                                               (set scaleIDs) 0 chan [] of
                                          (sent, closed) \<Rightarrow>
                                            (let w = logSends (map snd sent) w
                                             in if \<not> closed then (Blocked, w)
                                                else (Return (h_Err sub), w))))))"

section \<open>StreamReleases\<close>

text \<open>
  The closure \<^verbatim>\<open>maybeAcceptRelease\<close> returns a release, whether it was accepted, and an
  error: the decoding failed, the event was turned down, or the release was accepted.
\<close>

datatype 'a accept = AcceptErr | Rejected | Accepted 'a

definition maybeAcceptRelease ::
  "utils \<Rightarrow> StreamReleasesRequest \<Rightarrow> string set \<Rightarrow> string set \<Rightarrow> event \<Rightarrow> pb_Release accept" where
  "maybeAcceptRelease u req appIDs releaseIDs event =
     (let nameRejected =
            (if releaseIDs \<noteq> {}
             then (if ev_ObjectID event \<notin> releaseIDs
                   then (if appIDs \<noteq> {} then ev_AppID event \<notin> appIDs else True)
                   else False)
             else False)
      in if nameRejected then Rejected
         else case jsonRelease u (ev_Data event) of
                None \<Rightarrow> AcceptErr
              | Some r \<Rightarrow>
                  if \<not> MatchLabelFilters u (rel_Labels r) (req_LabelFilters req) then Rejected
                  else Accepted r)"

text \<open>
  The closure \<^verbatim>\<open>maybePrependRelease\<close>: an accepted release is put in front of the list,
  and the releases of the same name are dropped from the rest.
\<close>

definition maybePrependRelease ::
  "utils \<Rightarrow> StreamReleasesRequest \<Rightarrow> string set \<Rightarrow> string set \<Rightarrow> event \<Rightarrow> pb_Release list
    \<Rightarrow> pb_Release list" where
  "maybePrependRelease u req appIDs releaseIDs event releases =
     (case maybeAcceptRelease u req appIDs releaseIDs event of
        Accepted r \<Rightarrow> r # filter (\<lambda>sr. rel_Name sr \<noteq> rel_Name r) releases
      | _ \<Rightarrow> releases)"

text \<open>
  The loop over the listed events, given here in the order the loop visits them (the
  list is in descending order and the loop runs from its last element to its first).
  Each event visited becomes the value of \<^verbatim>\<open>currID\<close>.
\<close>

fun snapshotReleases ::
  "utils \<Rightarrow> StreamReleasesRequest \<Rightarrow> string set \<Rightarrow> string set \<Rightarrow> event list \<Rightarrow> int
    \<Rightarrow> pb_Release list \<Rightarrow> int \<times> pb_Release list" where
  "snapshotReleases u req appIDs releaseIDs [] currID releases = (currID, releases)"
| "snapshotReleases u req appIDs releaseIDs (event # events) currID releases =
     snapshotReleases u req appIDs releaseIDs events (ev_ID event)
       (maybePrependRelease u req appIDs releaseIDs event releases)"

text \<open>
  The trimming of the listed events. One event more than the page size was asked for;
  when it is there (or the page size is 0) and the list is not empty, the last event is
  dropped and the first one of the rest gives the next page token. \<^verbatim>\<open>list[0]\<close> on the
  empty rest is a panic.
\<close>

definition trimReleaseEvents ::
  "utils \<Rightarrow> int \<Rightarrow> event list \<Rightarrow> (event list \<times> PageToken option) outcome" where
  "trimReleaseEvents u pageSize list =
     (if (pageSize = 0 \<or> int (length list) = pageSize + 1) \<and> length list > 0
      then (let list = butlast list
            in case list of
                 [] \<Rightarrow> Panic
               | event # _ \<Rightarrow>
                   Return (list, Some \<lparr>pt_BeforeID = Some (FormatInt u (ev_ID event)),
                                       pt_Size = pageSize\<rparr>))
      else Return (list, None))"

text \<open>One round of the live loop: the new \<^verbatim>\<open>currID\<close> and the release to send, if any.\<close>

definition releasesLiveStep ::
  "utils \<Rightarrow> StreamReleasesRequest \<Rightarrow> string set \<Rightarrow> string set \<Rightarrow> int \<Rightarrow> event
    \<Rightarrow> int \<times> pb_Release option" where
  "releasesLiveStep u req appIDs releaseIDs currID event =
     (if ev_ID event \<le> currID then (currID, None)
      else (let currID = ev_ID event
            in case maybeAcceptRelease u req appIDs releaseIDs event of
                 Accepted release \<Rightarrow> (currID, Some release)
               | _ \<Rightarrow> (currID, None)))"

fun releasesLive ::
  "utils \<Rightarrow> StreamReleasesRequest \<Rightarrow> string set \<Rightarrow> string set \<Rightarrow> int \<Rightarrow> event option list
    \<Rightarrow> (event \<times> pb_Release) list \<Rightarrow> (event \<times> pb_Release) list \<times> bool" where
  "releasesLive u req appIDs releaseIDs currID [] sent = (sent, False)"
| "releasesLive u req appIDs releaseIDs currID (None # chan) sent = (sent, True)"
| "releasesLive u req appIDs releaseIDs currID (Some event # chan) sent =
     (case releasesLiveStep u req appIDs releaseIDs currID event of
        (currID, None) \<Rightarrow> releasesLive u req appIDs releaseIDs currID chan sent
      | (currID, Some release) \<Rightarrow>
          releasesLive u req appIDs releaseIDs currID chan (sent @ [(event, release)]))"


definition StreamReleases ::
  "utils \<Rightarrow> repos \<Rightarrow> StreamReleasesRequest \<Rightarrow> event option list
    \<Rightarrow> pb_Release StreamResponse world
    \<Rightarrow> err option outcome \<times> pb_Release StreamResponse world" where
  "StreamReleases u r req chan w =
     (let unary = \<not> (req_StreamUpdates req \<or> req_StreamCreates req);
          pageSize = req_PageSize req
      in case ParsePageToken u (req_PageToken req) of
           Inl e \<Rightarrow> (Return (Some e), w)
         | Inr pageToken \<Rightarrow>
             (let pageToken = (if pageSize > 0 then pageToken\<lparr>pt_Size := pageSize\<rparr> else pageToken);
                  pageSize = (if pageSize > 0 then pageSize else pt_Size pageToken);
                  eventAppIDs = ParseAppIDsFromNameFilters u (req_NameFilters req);
                  appIDs = set eventAppIDs;
                  releaseIDs = set (ParseReleaseIDsFromNameFilters u (req_NameFilters req));
                  eventAppIDs = (if releaseIDs \<noteq> {} then [] else eventAppIDs)
              in case subscribeEvents r eventAppIDs [EventTypeRelease] [] w of
                   (Inl e, w) \<Rightarrow> (Return (Some e), w)
                 | (Inr sub, w) \<Rightarrow>
                     deferClose r sub
                       (let count = (if pageSize > 0 then pageSize + 1 else pageSize);
                            w = logAction (ActQuery ''eventRepo.LegacyListEvents'') w
                        in case eventRepo_LegacyListEvents r eventAppIDs [EventTypeRelease]
                                  (BeforeIDInt64 u pageToken) count of
                             Inl e \<Rightarrow> (Return (Some e), w)
                           | Inr list \<Rightarrow>
                               (let currID = (case BeforeIDInt64 u pageToken of
                                                Some b \<Rightarrow> b | None \<Rightarrow> 0)
                                in case trimReleaseEvents u pageSize list of
                                     Panic \<Rightarrow> (Panic, w)
                                   | Blocked \<Rightarrow> (Blocked, w)
                                   | Return (list, nextPageToken) \<Rightarrow>
                                       (case snapshotReleases u req appIDs releaseIDs (rev list)
                                               currID [] of
                                          (currID, releases) \<Rightarrow>
                                            (let w = logAction
                                                  (ActSend (pageResponse u releases nextPageToken)) w
                                             in if unary then (Return None, w)
                                                else case releasesLive u req appIDs releaseIDs
                                                            currID chan [] of
                                                       (sent, closed) \<Rightarrow>
                                                         (let w = logSends (map snd sent) w
                                                          in if \<not> closed then (Blocked, w)
                                                             else (Return (h_Err sub), w))))))))"

section \<open>listDeployments, StreamDeployments and CreateDeployment\<close>

definition listDeployments ::
  "utils \<Rightarrow> repos \<Rightarrow> StreamDeploymentsRequest \<Rightarrow> 'r world
    \<Rightarrow> (err + pb_ExpandedDeployment list \<times> PageToken option) \<times> 'r world" where
  "listDeployments u r req w =
     (case ParsePageToken u (req_PageToken req) of
        Inl e \<Rightarrow> (Inl e, w)
      | Inr pageToken \<Rightarrow>
          (let pageToken = (if req_PageSize req > 0 then pageToken\<lparr>pt_Size := req_PageSize req\<rparr>
                            else pageToken);
               w = logAction (ActQuery ''deploymentRepo.ListPage'') w
           in case deploymentRepo_ListPage r
                     \<lparr>ldo_PageToken = pageToken,
                      ldo_AppIDs = ParseIDsFromNameFilters u (req_NameFilters req) ''apps'',
                      ldo_DeploymentIDs =
                        ParseIDsFromNameFilters u (req_NameFilters req) ''deployments''\<rparr> of
                Inl e \<Rightarrow> (Inl e, w)
              | Inr (ctExpandedDeployments, nextPageToken) \<Rightarrow>
                  (let deployments = map (ConvertExpandedDeployment u) ctExpandedDeployments;
                       filtered =
                         (if length (req_TypeFilters req) = 0 then deployments
                          else filter (\<lambda>ed. MatchReleaseType u (req_TypeFilters req) (pxd_Type ed))
                                 deployments)
                   in (Inr (filtered, nextPageToken), w))))"

text \<open>
  One round of the live loop of \<^verbatim>\<open>StreamDeployments\<close>: the expanded deployment to send,
  if any. The deployment is fetched from the repo and takes the status of the event.
\<close>

definition deploymentsLiveStep ::
  "utils \<Rightarrow> repos \<Rightarrow> StreamDeploymentsRequest \<Rightarrow> event \<Rightarrow> pb_ExpandedDeployment option" where
  "deploymentsLiveStep u r req ctEvent =
     (if \<not> opMatches (req_StreamCreates req) (req_StreamUpdates req) ctEvent then None
      else case jsonDeploymentEvent u (ev_Data ctEvent) of
             None \<Rightarrow> None
           | Some deploymentEvent \<Rightarrow>
               (case deploymentRepo_GetExpanded r (ev_ObjectID ctEvent) of
                  Inl e \<Rightarrow> None
                | Inr ctd \<Rightarrow>
                    (let ctd = ctd\<lparr>xd_Status := de_Status deploymentEvent\<rparr>;
                         d = ConvertExpandedDeployment u ctd
                     in if \<not> MatchReleaseType u (req_TypeFilters req) (pxd_Type d) then None
                        else Some d)))"

fun deploymentsLive ::
  "utils \<Rightarrow> repos \<Rightarrow> StreamDeploymentsRequest \<Rightarrow> event option list
    \<Rightarrow> (event \<times> pb_ExpandedDeployment) list \<Rightarrow> (event \<times> pb_ExpandedDeployment) list \<times> bool" where
  "deploymentsLive u r req [] sent = (sent, False)"
| "deploymentsLive u r req (None # chan) sent = (sent, True)"
| "deploymentsLive u r req (Some ctEvent # chan) sent =
     (case deploymentsLiveStep u r req ctEvent of
        None \<Rightarrow> deploymentsLive u r req chan sent
      | Some d \<Rightarrow> deploymentsLive u r req chan (sent @ [(ctEvent, d)]))"

definition StreamDeployments ::
  "utils \<Rightarrow> repos \<Rightarrow> StreamDeploymentsRequest \<Rightarrow> event option list
    \<Rightarrow> pb_ExpandedDeployment StreamResponse world
    \<Rightarrow> err option outcome \<times> pb_ExpandedDeployment StreamResponse world" where
  "StreamDeployments u r req chan w =
     (let unary = \<not> (req_StreamUpdates req \<or> req_StreamCreates req);
          appIDs = ParseIDsFromNameFilters u (req_NameFilters req) ''apps'';
          deploymentIDs = ParseIDsFromNameFilters u (req_NameFilters req) ''deployments''
      in case listDeployments u r req w of
           (Inl e, w) \<Rightarrow> (Return (Some e), w)
         | (Inr (deployments, nextPageToken), w) \<Rightarrow>
             (let w = logAction (ActSend (pageResponse u deployments nextPageToken)) w
              in if unary then (Return None, w)
                 else case subscribeEvents r appIDs [EventTypeDeployment] deploymentIDs w of
                        (Inl e, w) \<Rightarrow> (Return (Some e), w)
                      | (Inr sub, w) \<Rightarrow>
                          deferClose r sub
                            (case deploymentsLive u r req chan [] of
                               (sent, closed) \<Rightarrow>
                                 (let w = logSends (map snd sent) w
                                  in if \<not> closed then (Blocked, w)
                                     else (Return (h_Err sub), w)))))"






section \<open>Notions used to state the properties\<close>

text \<open>
  The subscribers that a run of successful \<^verbatim>\<open>Subscribe\<close> calls creates, one per app id,
  numbered from \<open>n\<close>, and the state after they were created: they are open, and the log
  has one entry for each.
\<close>

fun newSubscribers :: "nat \<Rightarrow> string list \<Rightarrow> string list \<Rightarrow> string list \<Rightarrow> subscriber list" where
  "newSubscribers n objectTypes objectIDs [] = []"
| "newSubscribers n objectTypes objectIDs (appID # appIDs) =
     \<lparr>sub_id = n, sub_appID = appID, sub_objectTypes = objectTypes, sub_objectIDs = objectIDs\<rparr>
       # newSubscribers (Suc n) objectTypes objectIDs appIDs"

definition subscribed :: "subscriber list \<Rightarrow> 'r world \<Rightarrow> 'r world" where
  "subscribed subs w =
     w\<lparr>w_subs := w_subs w @ subs, w_next := w_next w + length subs,
       w_log := w_log w @ map ActSubscribe subs\<rparr>"

text \<open>The messages sent on the stream, in the order they were sent.\<close>

fun sends :: "'r action list \<Rightarrow> 'r list" where
  "sends [] = []"
| "sends (ActSend x # acts) = x # sends acts"
| "sends (a # acts) = sends acts"

text \<open>The ids of the subscribers that the log closes.\<close>

fun closes :: "'r action list \<Rightarrow> nat list" where
  "closes [] = []"
| "closes (ActClose n # acts) = n # closes acts"
| "closes (a # acts) = closes acts"



text \<open>
  The page size in force in \<^verbatim>\<open>listApps\<close> once a page was read: the requested size if it
  is positive, else the size of the page token, and the number of apps read if that is 0.
\<close>

definition listAppsPageSize :: "int \<Rightarrow> PageToken \<Rightarrow> ct_App list \<Rightarrow> int" where
  "listAppsPageSize requested pageToken ctApps =
     (let pageSize = (if requested > 0 then requested else pt_Size pageToken)
      in if pageSize = 0 then int (length ctApps) else pageSize)"

section \<open>Example collaborators\<close>

text \<open>
  Collaborators for the closed instances below: helpers that find no id in any name and
  accept every label and type, a bus that starts and subscribes without error, and repos
  that hold nothing. An instance changes the fields it needs.
\<close>

definition utils0 :: utils where
  "utils0 =
     \<lparr>ParseIDFromName = (\<lambda>name segment. ''''),
      ParseIDsFromNameFilters = (\<lambda>names segment. []),
      ParseAppIDsFromNameFilters = (\<lambda>names. []),
      ParseReleaseIDsFromNameFilters = (\<lambda>names. []),
      MatchLabelFilters = (\<lambda>labels filters. True),
      MatchReleaseType = (\<lambda>types t. True),
      ConvertApp = (\<lambda>a. \<lparr>app_Name = ct_app_Name a, app_Labels = ct_app_Meta a,
                          app_Strategy = '''', app_DeployTimeout = 0\<rparr>),
      ConvertError = (\<lambda>e msg. StatusError Unknown msg),
      ConvertScaleRequest = (\<lambda>s. \<lparr>scale_Name = sr_ID s, scale_State = sr_State s\<rparr>),
      ConvertExpandedDeployment =
        (\<lambda>d. \<lparr>pxd_Name = xd_ID d, pxd_Status = xd_Status d, pxd_Type = xd_Type d\<rparr>),
      ConvertDeployment = (\<lambda>d. \<lparr>pd_Name = d_ID d, pd_Status = d_Status d\<rparr>),
      ConvertDeploymentEventJobState = (\<lambda>s. s),
      TimestampProto = (\<lambda>t. t),
      ParsePageToken = (\<lambda>s. Inr \<lparr>pt_BeforeID = (if s = '''' then None else Some s), pt_Size = 0\<rparr>),
      TokenString = (\<lambda>t. case t of None \<Rightarrow> ''''
                            | Some t \<Rightarrow> (case pt_BeforeID t of None \<Rightarrow> '''' | Some b \<Rightarrow> b)),
      BeforeIDInt64 = (\<lambda>t. None),
      FormatInt = (\<lambda>i. ''''),
      FormatNoArgs = (\<lambda>s. s),
      ScaleTimeoutSeconds = ''30'',
      jsonApp = (\<lambda>s. None),
      jsonScaleRequest = (\<lambda>s. None),
      jsonRelease = (\<lambda>s. None),
      jsonDeploymentEvent = (\<lambda>s. None)\<rparr>"

definition repos0 :: repos where
  "repos0 =
     \<lparr>Listen_err = None,
      Subscribe_err = (\<lambda>n a. None),
      sub_Err = (\<lambda>n. None),
      appRepo_ListPage = (\<lambda>t. Inr ([], None)),
      appRepo_Update = (\<lambda>i data. Inl (ErrorString ''not found'')),
      formationRepo_AddScaleRequest = (\<lambda>s. Inr (s\<lparr>sr_ID := ''s1''\<rparr>)),
      formationRepo_ListScaleRequests = (\<lambda>opts. Inr ([], None)),
      eventRepo_LegacyListEvents = (\<lambda>appIDs types beforeID count. Inr []),
      deploymentRepo_ListPage = (\<lambda>opts. Inr ([], None)),
      deploymentRepo_GetExpanded = (\<lambda>i. Inl (ErrorString ''not found'')),
      deploymentRepo_Get = (\<lambda>i. Inl (ErrorString ''not found'')),
      deploymentRepo_Add =
        (\<lambda>a rel. Inr \<lparr>d_ID = ''d1'', d_AppID = a, d_NewReleaseID = rel, d_Status = ''pending''\<rparr>)\<rparr>"

text \<open>The state before a handler runs: the listener is up, there is no subscriber.\<close>

definition world0 :: "'r world" where
  "world0 = \<lparr>w_listening = True, w_subs = [], w_next = 0, w_log = []\<rparr>"


section \<open>subscribeEvents\<close>

lemma subscribed_Nil: "subscribed [] w = w"
  by (simp add: subscribed_def)

lemma Subscribe_ok:
  "Subscribe_err r (w_next w) a = None \<Longrightarrow>
   Subscribe r a tys ids w =
     (Inr \<lparr>sub_id = w_next w, sub_appID = a, sub_objectTypes = tys, sub_objectIDs = ids\<rparr>,
      subscribed [\<lparr>sub_id = w_next w, sub_appID = a, sub_objectTypes = tys, sub_objectIDs = ids\<rparr>] w)"
  by (simp add: Subscribe_def subscribed_def logAction_def Let_def)

lemma subscribed_Cons:
  "subscribed subs (subscribed [s] w) = subscribed (s # subs) w"
  by (simp add: subscribed_def)

lemma w_next_subscribed: "w_next (subscribed subs w) = w_next w + length subs"
  by (simp add: subscribed_def)

lemma length_newSubscribers: "length (newSubscribers n tys ids apps) = length apps"
  by (induction apps arbitrary: n) auto

lemma closes_append: "closes (xs @ ys) = closes xs @ closes ys"
  by (induction xs rule: closes.induct) auto

lemma sends_append: "sends (xs @ ys) = sends xs @ sends ys"
  by (induction xs rule: sends.induct) auto

lemma closes_map_ActSubscribe: "closes (map ActSubscribe subs) = []"
  by (induction subs) auto

lemma sends_map_ActSubscribe: "sends (map ActSubscribe subs) = []"
  by (induction subs) auto

lemma subscribeLoop_fails:
  "\<forall>i < length pre. Subscribe_err r (w_next w + i) (pre ! i) = None \<Longrightarrow>
   Subscribe_err r (w_next w + length pre) a = Some e \<Longrightarrow>
   subscribeLoop r tys ids (pre @ a # post) subs w =
     (Inl e, subscribed (newSubscribers (w_next w) tys ids pre) w)"
proof (induction pre arbitrary: subs w)
  case Nil
  then show ?case by (simp add: Subscribe_def subscribed_Nil)
next
  case (Cons p pre)
  let ?s = "\<lparr>sub_id = w_next w, sub_appID = p, sub_objectTypes = tys, sub_objectIDs = ids\<rparr>"
  from Cons.prems(1) have p: "Subscribe_err r (w_next w) p = None" by force
  have rest: "\<forall>i < length pre. Subscribe_err r (w_next (subscribed [?s] w) + i) (pre ! i) = None"
    using Cons.prems(1) by (auto simp: w_next_subscribed)
  have fail: "Subscribe_err r (w_next (subscribed [?s] w) + length pre) a = Some e"
    using Cons.prems(2) by (simp add: w_next_subscribed)
  show ?case
    using Cons.IH [OF rest fail]
    by (simp add: Subscribe_ok [OF p] subscribed_Cons w_next_subscribed)
qed

lemma subscribeLoop_ok:
  "\<forall>i < length apps. Subscribe_err r (w_next w + i) (apps ! i) = None \<Longrightarrow>
   subscribeLoop r tys ids apps subs w =
     (Inr (subs @ newSubscribers (w_next w) tys ids apps),
      subscribed (newSubscribers (w_next w) tys ids apps) w)"
proof (induction apps arbitrary: subs w)
  case Nil
  then show ?case by (simp add: subscribed_Nil)
next
  case (Cons p apps)
  let ?s = "\<lparr>sub_id = w_next w, sub_appID = p, sub_objectTypes = tys, sub_objectIDs = ids\<rparr>"
  from Cons.prems(1) have p: "Subscribe_err r (w_next w) p = None" by force
  have rest: "\<forall>i < length apps. Subscribe_err r (w_next (subscribed [?s] w) + i) (apps ! i) = None"
    using Cons.prems(1) by (auto simp: w_next_subscribed)
  show ?case
    using Cons.IH [OF rest]
    by (simp add: Subscribe_ok [OF p] subscribed_Cons w_next_subscribed)
qed

text \<open>
  C9: \<^verbatim>\<open>subscribeEvents\<close> is not atomic on failure. With the listener up, when the bus
  subscribers for the app ids \<open>pre\<close> (at least one) are created and the next \<^verbatim>\<open>Subscribe\<close>
  fails with \<open>e\<close>, the call returns the error and no handle, the subscribers created for
  \<open>pre\<close> are open afterwards (all of them, after those that were open before), and the
  call closes no subscriber.
\<close>

theorem subscribeEvents_not_atomic:
  assumes "w_listening w" and "pre \<noteq> []"
    and "\<forall>i < length pre. Subscribe_err r (w_next w + i) (pre ! i) = None"
    and "Subscribe_err r (w_next w + length pre) a = Some e"
  shows "fst (subscribeEvents r (pre @ a # post) tys ids w) = Inl e
    \<and> w_subs (snd (subscribeEvents r (pre @ a # post) tys ids w))
        = w_subs w @ newSubscribers (w_next w) tys ids pre
    \<and> length (newSubscribers (w_next w) tys ids pre) = length pre
    \<and> closes (w_log (snd (subscribeEvents r (pre @ a # post) tys ids w))) = closes (w_log w)"
proof -
  have "subscribeEvents r (pre @ a # post) tys ids w
      = (Inl e, subscribed (newSubscribers (w_next w) tys ids pre) w)"
    using assms(1) subscribeLoop_fails [OF assms(3) assms(4), of tys ids post "[]"]
    by (simp add: subscribeEvents_def maybeStartEventListener_def)
  then show ?thesis
    by (simp add: subscribed_def length_newSubscribers closes_append closes_map_ActSubscribe)
qed

theorem subscribeEvents_not_atomic_witness:
  "fst (subscribeEvents (repos0\<lparr>Subscribe_err := (\<lambda>n a. if a = ''b'' then Some (ErrorString ''closed'') else None)\<rparr>)
          [''a'', ''b'', ''c''] [EventTypeApp] [] (world0 :: unit world))
     = Inl (ErrorString ''closed'')
   \<and> w_subs (snd (subscribeEvents (repos0\<lparr>Subscribe_err := (\<lambda>n a. if a = ''b'' then Some (ErrorString ''closed'') else None)\<rparr>)
          [''a'', ''b'', ''c''] [EventTypeApp] [] (world0 :: unit world)))
     = [\<lparr>sub_id = 0, sub_appID = ''a'', sub_objectTypes = [EventTypeApp], sub_objectIDs = []\<rparr>]
   \<and> closes (w_log (snd (subscribeEvents (repos0\<lparr>Subscribe_err := (\<lambda>n a. if a = ''b'' then Some (ErrorString ''closed'') else None)\<rparr>)
          [''a'', ''b'', ''c''] [EventTypeApp] [] (world0 :: unit world)))) = []"
  using subscribeEvents_not_atomic [of "world0 :: unit world" "[''a'']"
      "repos0\<lparr>Subscribe_err := (\<lambda>n a. if a = ''b'' then Some (ErrorString ''closed'') else None)\<rparr>"
      "''b''" "ErrorString ''closed''" "[''c'']" "[EventTypeApp]" "[]"]
  by (simp add: world0_def repos0_def)

section \<open>The live loops: watermark and name filters\<close>













section \<open>createScale\<close>









lemma fst_deferClose: "fst (deferClose r h (out, w)) = out"
  by (cases out) (simp_all add: deferClose_def)





section \<open>CreateDeployment\<close>




















section \<open>The snapshot phase\<close>

lemma sends_logAction: "sends (w_log (logAction a w)) = sends (w_log w) @ sends [a]"
  by (simp add: logAction_def sends_append)

lemma sends_Subscribe:
  "Subscribe r a tys ids w = (res, w1) \<Longrightarrow> sends (w_log w1) = sends (w_log w)"
  by (auto simp: Subscribe_def Let_def sends_logAction split: option.splits)

lemma sends_subscribeLoop:
  "subscribeLoop r tys ids apps subs w = (res, w1) \<Longrightarrow> sends (w_log w1) = sends (w_log w)"
proof (induction apps arbitrary: subs w)
  case Nil
  then show ?case by simp
next
  case (Cons a apps)
  obtain x w' where s: "Subscribe r a tys ids w = (x, w')"
    by (cases "Subscribe r a tys ids w") auto
  show ?case
  proof (cases x)
    case (Inl e)
    with Cons.prems s sends_Subscribe [OF s] show ?thesis by simp
  next
    case (Inr sub)
    with Cons.prems s have "subscribeLoop r tys ids apps (subs @ [sub]) w' = (res, w1)" by simp
    from Cons.IH [OF this] sends_Subscribe [OF s] show ?thesis by simp
  qed
qed

lemma sends_subscribeEvents:
  "subscribeEvents r apps tys ids w = (res, w1) \<Longrightarrow> sends (w_log w1) = sends (w_log w)"
proof -
  assume a: "subscribeEvents r apps tys ids w = (res, w1)"
  obtain x w0 where m: "maybeStartEventListener r w = (x, w0)"
    by (cases "maybeStartEventListener r w") auto
  then have w0: "sends (w_log w0) = sends (w_log w)"
    by (auto simp: maybeStartEventListener_def sends_logAction split: if_splits)
  show ?thesis
  proof (cases x)
    case (Some e)
    with a m w0 show ?thesis by (simp add: subscribeEvents_def)
  next
    case None
    obtain y w2 where l: "subscribeLoop r tys ids (if length apps = 0 then [''''] else apps) [] w0
        = (y, w2)"
      by (cases "subscribeLoop r tys ids (if length apps = 0 then [''''] else apps) [] w0") auto
    from a m None l have "w1 = w2"
      by (cases y) (simp_all add: subscribeEvents_def Let_def)
    with sends_subscribeLoop [OF l] w0 show ?thesis by simp
  qed
qed

lemma sends_closeLoop: "sends (w_log (snd (closeLoop r subs h w))) = sends (w_log w)"
  by (induction subs arbitrary: h w)
    (simp_all add: Let_def subscriber_Close_def sends_logAction)

lemma sends_deferClose: "sends (w_log (snd (deferClose r h (out, w)))) = sends (w_log w)"
  by (cases out) (simp_all add: deferClose_def Close_def sends_closeLoop)

text \<open>With the listener up and a bus that accepts every subscription, subscribing succeeds.\<close>

lemma subscribeEvents_up:
  assumes "w_listening w" and "\<forall>n a. Subscribe_err r n a = None"
  shows "\<exists>sub w1. subscribeEvents r apps tys ids w = (Inr sub, w1) \<and> h_Err sub = None"
proof -
  have "\<forall>i < length (if length apps = 0 then [''''] else apps).
      Subscribe_err r (w_next w + i) ((if length apps = 0 then [''''] else apps) ! i) = None"
    using assms(2) by simp
  from subscribeLoop_ok [OF this, of tys ids "[]"] assms(1) show ?thesis
    by (simp add: subscribeEvents_def maybeStartEventListener_def Let_def)
qed

lemma listApps_first_page_error:
  "ParsePageToken u (req_PageToken req) = Inr t \<Longrightarrow>
   appRepo_ListPage r (if 0 < req_PageSize req then t\<lparr>pt_Size := req_PageSize req\<rparr> else t) = Inl e \<Longrightarrow>
   listApps (Suc fuel) u r req w = (Some (Inl e), logAction (ActQuery ''appRepo.ListPage'') w)"
  by (simp add: Let_def)

lemma StreamApps_body_error:
  "listApps fuel u r req w = (Some (Inl e), w') \<Longrightarrow>
   StreamApps_body fuel u r req chan sub w = (Return (Some e), w')"
  by (simp add: StreamApps_body_def)

lemma listApps_next_page_error:
  assumes "ParsePageToken u (req_PageToken req) = Inr t"
    and "appRepo_ListPage r (if 0 < req_PageSize req then t\<lparr>pt_Size := req_PageSize req\<rparr> else t)
           = Inr (ctApps, Some npt)"
    and "filterApps u (req_LabelFilters req) (ParseAppIDsFromNameFilters u (req_NameFilters req))
           (listAppsPageSize (req_PageSize req) t ctApps) ctApps [] 0 = (apps, n)"
    and "n < listAppsPageSize (req_PageSize req) t ctApps"
    and "listApps fuel u r (req\<lparr>req_PageToken := TokenString u (Some npt)\<rparr>)
           (logAction (ActQuery ''appRepo.ListPage'') w) = (Some (Inl e), w')"
  shows "listApps (Suc fuel) u r req w = (Some (Inr (apps, Some npt)), w')"
proof (cases "0 < req_PageSize req")
  case True
  with assms show ?thesis by (simp add: Let_def listAppsPageSize_def)
next
  case False
  with assms show ?thesis
    by (cases "pt_Size t = 0") (simp_all add: Let_def listAppsPageSize_def)
qed

text \<open>
  C6 (as stated): a repo error while a further page is fetched to fill the page fails the
  RPC. In \<^verbatim>\<open>listApps\<close> it does not: the first page holds one matching app of the two asked
  for, the repo fails on the next page, and \<^verbatim>\<open>StreamApps\<close> sends the page with that one app
  and returns nil.
\<close>

theorem StreamApps_partial_snapshot_counterexample:
  "fst (StreamApps 2
          (utils0\<lparr>MatchLabelFilters := (\<lambda>labels filters. labels ''env'' = Some ''prod'')\<rparr>)
          (repos0\<lparr>appRepo_ListPage :=
             (\<lambda>t. if pt_BeforeID t = None
                   then Inr ([\<lparr>ct_app_ID = ''1'', ct_app_Name = ''web'', ct_app_Meta = [''env'' \<mapsto> ''prod'']\<rparr>,
                              \<lparr>ct_app_ID = ''2'', ct_app_Name = ''db'', ct_app_Meta = [''env'' \<mapsto> ''dev'']\<rparr>],
                             Some \<lparr>pt_BeforeID = Some ''2'', pt_Size = 2\<rparr>)
                   else Inl (ErrorString ''connection lost''))\<rparr>)
          \<lparr>req_PageSize = 2, req_PageToken = '''', req_NameFilters = [], req_StreamUpdates = False,
            req_StreamCreates = False, req_LabelFilters = []\<rparr>
          [] world0) = Return None
   \<and> map (\<lambda>m. (map app_Name (resp_Items m), resp_NextPageToken m))
       (sends (w_log (snd (StreamApps 2
          (utils0\<lparr>MatchLabelFilters := (\<lambda>labels filters. labels ''env'' = Some ''prod'')\<rparr>)
          (repos0\<lparr>appRepo_ListPage :=
             (\<lambda>t. if pt_BeforeID t = None
                   then Inr ([\<lparr>ct_app_ID = ''1'', ct_app_Name = ''web'', ct_app_Meta = [''env'' \<mapsto> ''prod'']\<rparr>,
                              \<lparr>ct_app_ID = ''2'', ct_app_Name = ''db'', ct_app_Meta = [''env'' \<mapsto> ''dev'']\<rparr>],
                             Some \<lparr>pt_BeforeID = Some ''2'', pt_Size = 2\<rparr>)
                   else Inl (ErrorString ''connection lost''))\<rparr>)
          \<lparr>req_PageSize = 2, req_PageToken = '''', req_NameFilters = [], req_StreamUpdates = False,
            req_StreamCreates = False, req_LabelFilters = []\<rparr>
          [] world0))))
     = [([''web''], ''2'')]"
  by (simp add: StreamApps_def StreamApps_body_def utils0_def repos0_def world0_def
      logAction_def pageResponse_def Let_def numeral_2_eq_2)

text \<open>
  C7: with a page size of 2, a first page that holds one matching app of two, and a next
  page with two matching apps, \<^verbatim>\<open>listApps\<close> returns three apps: the recursive call asks for
  a whole page again and its apps are put in front of the one found before.
\<close>

theorem listApps_overfills_page:
  "fst (listApps 2
          (utils0\<lparr>MatchLabelFilters := (\<lambda>labels filters. labels ''env'' = Some ''prod'')\<rparr>)
          (repos0\<lparr>appRepo_ListPage :=
             (\<lambda>t. if pt_BeforeID t = None
                   then Inr ([\<lparr>ct_app_ID = ''1'', ct_app_Name = ''web'', ct_app_Meta = [''env'' \<mapsto> ''prod'']\<rparr>,
                              \<lparr>ct_app_ID = ''2'', ct_app_Name = ''db'', ct_app_Meta = [''env'' \<mapsto> ''dev'']\<rparr>],
                             Some \<lparr>pt_BeforeID = Some ''2'', pt_Size = 2\<rparr>)
                   else Inr ([\<lparr>ct_app_ID = ''3'', ct_app_Name = ''api'', ct_app_Meta = [''env'' \<mapsto> ''prod'']\<rparr>,
                              \<lparr>ct_app_ID = ''4'', ct_app_Name = ''cron'', ct_app_Meta = [''env'' \<mapsto> ''prod'']\<rparr>],
                             None))\<rparr>)
          \<lparr>req_PageSize = 2, req_PageToken = '''', req_NameFilters = [], req_StreamUpdates = False,
            req_StreamCreates = False, req_LabelFilters = []\<rparr>
          (world0 :: unit world))
     = Some (Inr ([\<lparr>app_Name = ''api'', app_Labels = [''env'' \<mapsto> ''prod''], app_Strategy = '''',
                    app_DeployTimeout = 0\<rparr>,
                   \<lparr>app_Name = ''cron'', app_Labels = [''env'' \<mapsto> ''prod''], app_Strategy = '''',
                    app_DeployTimeout = 0\<rparr>,
                   \<lparr>app_Name = ''web'', app_Labels = [''env'' \<mapsto> ''prod''], app_Strategy = '''',
                    app_DeployTimeout = 0\<rparr>], None))"
  by (simp add: utils0_def repos0_def world0_def logAction_def Let_def numeral_2_eq_2)

text \<open>
  C2: \<^verbatim>\<open>StreamDeployments\<close> queries the snapshot and sends the first response before it
  subscribes, also for a streaming request; \<^verbatim>\<open>StreamApps\<close>, on the same kind of request,
  subscribes first.
\<close>

theorem StreamDeployments_subscribes_after_snapshot:
  "w_log (snd (StreamDeployments utils0 repos0
        \<lparr>req_PageSize = 0, req_PageToken = '''', req_NameFilters = [], req_StreamUpdates = True,
          req_StreamCreates = True, req_TypeFilters = []\<rparr> [None] world0))
     = [ActQuery ''deploymentRepo.ListPage'',
        ActSend \<lparr>resp_Items = [], resp_NextPageToken = '''', resp_PageComplete = True\<rparr>,
        ActSubscribe \<lparr>sub_id = 0, sub_appID = '''', sub_objectTypes = [EventTypeDeployment],
                      sub_objectIDs = []\<rparr>,
        ActClose 0]
   \<and> w_log (snd (StreamApps 1 utils0 repos0
        \<lparr>req_PageSize = 0, req_PageToken = '''', req_NameFilters = [], req_StreamUpdates = True,
          req_StreamCreates = True, req_LabelFilters = []\<rparr> [None] world0))
     = [ActSubscribe \<lparr>sub_id = 0, sub_appID = '''',
                      sub_objectTypes = [EventTypeApp, EventTypeAppDeletion, EventTypeAppRelease],
                      sub_objectIDs = []\<rparr>,
        ActQuery ''appRepo.ListPage'',
        ActSend \<lparr>resp_Items = [], resp_NextPageToken = '''', resp_PageComplete = True\<rparr>,
        ActClose 0]"
  by (simp add: StreamDeployments_def listDeployments_def StreamApps_def StreamApps_body_def
      utils0_def repos0_def world0_def subscribeEvents_def maybeStartEventListener_def
      Subscribe_def logAction_def logSends_def deferClose_def Close_def subscriber_Close_def
      pageResponse_def Let_def)

lemma StreamApps_snapshot_error:
  assumes up: "w_listening w" and bus: "\<forall>n a. Subscribe_err r n a = None"
    and tok: "ParsePageToken u (req_PageToken req) = Inr t"
    and err: "appRepo_ListPage r (if 0 < req_PageSize req then t\<lparr>pt_Size := req_PageSize req\<rparr> else t)
               = Inl e"
  shows "fst (StreamApps (Suc fuel) u r req chan w) = Return (Some e)
    \<and> sends (w_log (snd (StreamApps (Suc fuel) u r req chan w))) = sends (w_log w)"
proof (cases "req_StreamUpdates req \<or> req_StreamCreates req")
  case False
  have "StreamApps (Suc fuel) u r req chan w
      = (Return (Some e), logAction (ActQuery ''appRepo.ListPage'') w)"
    using False
    by (simp add: StreamApps_def StreamApps_body_error [OF listApps_first_page_error [OF tok err]]
        del: listApps.simps)
  then show ?thesis by (simp add: sends_logAction)
next
  case True
  obtain sub w1 where s: "subscribeEvents r (ParseAppIDsFromNameFilters u (req_NameFilters req))
      [EventTypeApp, EventTypeAppDeletion, EventTypeAppRelease] [] w = (Inr sub, w1)"
    using subscribeEvents_up [OF up bus] by blast
  have "StreamApps (Suc fuel) u r req chan w
      = deferClose r sub (Return (Some e), logAction (ActQuery ''appRepo.ListPage'') w1)"
    using True
    by (simp add: StreamApps_def s Let_def
        StreamApps_body_error [OF listApps_first_page_error [OF tok err]] del: listApps.simps)
  then show ?thesis
    by (simp add: fst_deferClose sends_deferClose sends_logAction sends_subscribeEvents [OF s])
qed

lemma StreamScales_snapshot_error:
  assumes up: "w_listening w" and bus: "\<forall>n a. Subscribe_err r n a = None"
    and tok: "ParsePageToken u (req_PageToken req) = Inr t"
    and err: "formationRepo_ListScaleRequests r
               \<lparr>lso_PageToken = (if 0 < req_PageSize req then t\<lparr>pt_Size := req_PageSize req\<rparr> else t),
                lso_AppIDs = ParseIDsFromNameFilters u (req_NameFilters req) ''apps'',
                lso_ReleaseIDs = ParseIDsFromNameFilters u (req_NameFilters req) ''releases'',
                lso_ScaleIDs = ParseIDsFromNameFilters u (req_NameFilters req) ''scales''\<rparr> = Inl e"
  shows "fst (StreamScales u r req chan w) = Return (Some e)
    \<and> sends (w_log (snd (StreamScales u r req chan w))) = sends (w_log w)"
proof -
  obtain a b where ab: "streamScalesSubscription u req = (a, b)"
    by (cases "streamScalesSubscription u req") auto
  obtain sub w1 where s: "subscribeEvents r a [EventTypeScaleRequest] b w = (Inr sub, w1)"
    using subscribeEvents_up [OF up bus] by blast
  have "StreamScales u r req chan w
      = deferClose r sub (Return (Some e), logAction (ActQuery ''formationRepo.ListScaleRequests'') w1)"
    using err by (simp add: StreamScales_def tok ab s Let_def)
  then show ?thesis
    by (simp add: fst_deferClose sends_deferClose sends_logAction sends_subscribeEvents [OF s])
qed

lemma StreamReleases_snapshot_error:
  assumes up: "w_listening w" and bus: "\<forall>n a. Subscribe_err r n a = None"
    and tok: "ParsePageToken u (req_PageToken req) = Inr t"
    and err: "\<forall>apps b c. eventRepo_LegacyListEvents r apps [EventTypeRelease] b c = Inl e"
  shows "fst (StreamReleases u r req chan w) = Return (Some e)
    \<and> sends (w_log (snd (StreamReleases u r req chan w))) = sends (w_log w)"
proof -
  let ?apps = "if set (ParseReleaseIDsFromNameFilters u (req_NameFilters req)) \<noteq> {} then []
               else ParseAppIDsFromNameFilters u (req_NameFilters req)"
  obtain sub w1 where s: "subscribeEvents r ?apps [EventTypeRelease] [] w = (Inr sub, w1)"
    using subscribeEvents_up [OF up bus] by blast
  have "StreamReleases u r req chan w
      = deferClose r sub (Return (Some e), logAction (ActQuery ''eventRepo.LegacyListEvents'') w1)"
    using err s by (simp add: StreamReleases_def tok Let_def)
  then show ?thesis
    by (simp add: fst_deferClose sends_deferClose sends_logAction sends_subscribeEvents [OF s])
qed

lemma StreamDeployments_snapshot_error:
  assumes tok: "ParsePageToken u (req_PageToken req) = Inr t"
    and err: "deploymentRepo_ListPage r
               \<lparr>ldo_PageToken = (if 0 < req_PageSize req then t\<lparr>pt_Size := req_PageSize req\<rparr> else t),
                ldo_AppIDs = ParseIDsFromNameFilters u (req_NameFilters req) ''apps'',
                ldo_DeploymentIDs = ParseIDsFromNameFilters u (req_NameFilters req) ''deployments''\<rparr>
               = Inl e"
  shows "fst (StreamDeployments u r req chan w) = Return (Some e)
    \<and> sends (w_log (snd (StreamDeployments u r req chan w))) = sends (w_log w)"
  using err by (simp add: StreamDeployments_def listDeployments_def tok Let_def sends_logAction)

text \<open>
  C6 (amended): with the listener up and a bus that accepts subscriptions, an error of the
  repo on the snapshot query of \<^verbatim>\<open>StreamApps\<close> (the first page), \<^verbatim>\<open>StreamScales\<close>,
  \<^verbatim>\<open>StreamReleases\<close> or \<^verbatim>\<open>StreamDeployments\<close> ends the RPC with that error, and nothing is
  sent. In \<^verbatim>\<open>listApps\<close>, when the first page holds fewer apps than the page size and a
  further page is fetched, an error of that fetch is dropped: the apps found so far are
  returned with the next page token of the first page.
\<close>

theorem snapshot_error_fails_rpc:
  "(w_listening wa \<and> (\<forall>n a. Subscribe_err r n a = None) \<and>
      ParsePageToken u (req_PageToken areq) = Inr t \<and>
      appRepo_ListPage r (if 0 < req_PageSize areq then t\<lparr>pt_Size := req_PageSize areq\<rparr> else t)
        = Inl e \<longrightarrow>
      fst (StreamApps (Suc fuel) u r areq chan wa) = Return (Some e)
      \<and> sends (w_log (snd (StreamApps (Suc fuel) u r areq chan wa))) = sends (w_log wa))
   \<and> (w_listening ws \<and> (\<forall>n a. Subscribe_err r n a = None) \<and>
      ParsePageToken u (req_PageToken sreq) = Inr t \<and>
      formationRepo_ListScaleRequests r
         \<lparr>lso_PageToken = (if 0 < req_PageSize sreq then t\<lparr>pt_Size := req_PageSize sreq\<rparr> else t),
          lso_AppIDs = ParseIDsFromNameFilters u (req_NameFilters sreq) ''apps'',
          lso_ReleaseIDs = ParseIDsFromNameFilters u (req_NameFilters sreq) ''releases'',
          lso_ScaleIDs = ParseIDsFromNameFilters u (req_NameFilters sreq) ''scales''\<rparr> = Inl e \<longrightarrow>
      fst (StreamScales u r sreq chan ws) = Return (Some e)
      \<and> sends (w_log (snd (StreamScales u r sreq chan ws))) = sends (w_log ws))
   \<and> (w_listening wr \<and> (\<forall>n a. Subscribe_err r n a = None) \<and>
      ParsePageToken u (req_PageToken rreq) = Inr t \<and>
      (\<forall>apps b c. eventRepo_LegacyListEvents r apps [EventTypeRelease] b c = Inl e) \<longrightarrow>
      fst (StreamReleases u r rreq chan wr) = Return (Some e)
      \<and> sends (w_log (snd (StreamReleases u r rreq chan wr))) = sends (w_log wr))
   \<and> (ParsePageToken u (req_PageToken dreq) = Inr t \<and>
      deploymentRepo_ListPage r
         \<lparr>ldo_PageToken = (if 0 < req_PageSize dreq then t\<lparr>pt_Size := req_PageSize dreq\<rparr> else t),
          ldo_AppIDs = ParseIDsFromNameFilters u (req_NameFilters dreq) ''apps'',
          ldo_DeploymentIDs = ParseIDsFromNameFilters u (req_NameFilters dreq) ''deployments''\<rparr>
        = Inl e \<longrightarrow>
      fst (StreamDeployments u r dreq chan wd) = Return (Some e)
      \<and> sends (w_log (snd (StreamDeployments u r dreq chan wd))) = sends (w_log wd))
   \<and> (ParsePageToken u (req_PageToken areq) = Inr t \<and>
      appRepo_ListPage r (if 0 < req_PageSize areq then t\<lparr>pt_Size := req_PageSize areq\<rparr> else t)
        = Inr (ctApps, Some npt) \<and>
      filterApps u (req_LabelFilters areq) (ParseAppIDsFromNameFilters u (req_NameFilters areq))
        (listAppsPageSize (req_PageSize areq) t ctApps) ctApps [] 0 = (apps, n) \<and>
      n < listAppsPageSize (req_PageSize areq) t ctApps \<and>
      listApps fuel u r (areq\<lparr>req_PageToken := TokenString u (Some npt)\<rparr>)
        (logAction (ActQuery ''appRepo.ListPage'') wa) = (Some (Inl e), wa') \<longrightarrow>
      listApps (Suc fuel) u r areq wa = (Some (Inr (apps, Some npt)), wa'))"
proof (intro conjI)
  show "w_listening wa \<and> (\<forall>n a. Subscribe_err r n a = None) \<and>
      ParsePageToken u (req_PageToken areq) = Inr t \<and>
      appRepo_ListPage r (if 0 < req_PageSize areq then t\<lparr>pt_Size := req_PageSize areq\<rparr> else t)
        = Inl e \<longrightarrow>
      fst (StreamApps (Suc fuel) u r areq chan wa) = Return (Some e)
      \<and> sends (w_log (snd (StreamApps (Suc fuel) u r areq chan wa))) = sends (w_log wa)"
    by (intro impI, elim conjE, rule StreamApps_snapshot_error)
  show "w_listening ws \<and> (\<forall>n a. Subscribe_err r n a = None) \<and>
      ParsePageToken u (req_PageToken sreq) = Inr t \<and>
      formationRepo_ListScaleRequests r
         \<lparr>lso_PageToken = (if 0 < req_PageSize sreq then t\<lparr>pt_Size := req_PageSize sreq\<rparr> else t),
          lso_AppIDs = ParseIDsFromNameFilters u (req_NameFilters sreq) ''apps'',
          lso_ReleaseIDs = ParseIDsFromNameFilters u (req_NameFilters sreq) ''releases'',
          lso_ScaleIDs = ParseIDsFromNameFilters u (req_NameFilters sreq) ''scales''\<rparr> = Inl e \<longrightarrow>
      fst (StreamScales u r sreq chan ws) = Return (Some e)
      \<and> sends (w_log (snd (StreamScales u r sreq chan ws))) = sends (w_log ws)"
    by (intro impI, elim conjE, rule StreamScales_snapshot_error)
  show "w_listening wr \<and> (\<forall>n a. Subscribe_err r n a = None) \<and>
      ParsePageToken u (req_PageToken rreq) = Inr t \<and>
      (\<forall>apps b c. eventRepo_LegacyListEvents r apps [EventTypeRelease] b c = Inl e) \<longrightarrow>
      fst (StreamReleases u r rreq chan wr) = Return (Some e)
      \<and> sends (w_log (snd (StreamReleases u r rreq chan wr))) = sends (w_log wr)"
    by (intro impI, elim conjE, rule StreamReleases_snapshot_error)
  show "ParsePageToken u (req_PageToken dreq) = Inr t \<and>
      deploymentRepo_ListPage r
         \<lparr>ldo_PageToken = (if 0 < req_PageSize dreq then t\<lparr>pt_Size := req_PageSize dreq\<rparr> else t),
          ldo_AppIDs = ParseIDsFromNameFilters u (req_NameFilters dreq) ''apps'',
          ldo_DeploymentIDs = ParseIDsFromNameFilters u (req_NameFilters dreq) ''deployments''\<rparr>
        = Inl e \<longrightarrow>
      fst (StreamDeployments u r dreq chan wd) = Return (Some e)
      \<and> sends (w_log (snd (StreamDeployments u r dreq chan wd))) = sends (w_log wd)"
    by (intro impI, elim conjE, rule StreamDeployments_snapshot_error)
  show "ParsePageToken u (req_PageToken areq) = Inr t \<and>
      appRepo_ListPage r (if 0 < req_PageSize areq then t\<lparr>pt_Size := req_PageSize areq\<rparr> else t)
        = Inr (ctApps, Some npt) \<and>
      filterApps u (req_LabelFilters areq) (ParseAppIDsFromNameFilters u (req_NameFilters areq))
        (listAppsPageSize (req_PageSize areq) t ctApps) ctApps [] 0 = (apps, n) \<and>
      n < listAppsPageSize (req_PageSize areq) t ctApps \<and>
      listApps fuel u r (areq\<lparr>req_PageToken := TokenString u (Some npt)\<rparr>)
        (logAction (ActQuery ''appRepo.ListPage'') wa) = (Some (Inl e), wa') \<longrightarrow>
      listApps (Suc fuel) u r areq wa = (Some (Inr (apps, Some npt)), wa')"
    by (intro impI, elim conjE, rule listApps_next_page_error)
qed

theorem snapshot_error_fails_rpc_witness:
  "fst (StreamScales utils0
         (repos0\<lparr>formationRepo_ListScaleRequests := (\<lambda>opts. Inl (ErrorString ''connection lost''))\<rparr>)
         \<lparr>req_PageSize = 0, req_PageToken = '''', req_NameFilters = [], req_StreamUpdates = True,
           req_StreamCreates = True\<rparr> [] world0)
     = Return (Some (ErrorString ''connection lost''))
   \<and> sends (w_log (snd (StreamScales utils0
         (repos0\<lparr>formationRepo_ListScaleRequests := (\<lambda>opts. Inl (ErrorString ''connection lost''))\<rparr>)
         \<lparr>req_PageSize = 0, req_PageToken = '''', req_NameFilters = [], req_StreamUpdates = True,
           req_StreamCreates = True\<rparr> [] world0))) = []"
  using snapshot_error_fails_rpc [where u = utils0
      and r = "repos0\<lparr>formationRepo_ListScaleRequests := (\<lambda>opts. Inl (ErrorString ''connection lost''))\<rparr>"
      and sreq = "\<lparr>req_PageSize = 0, req_PageToken = '''', req_NameFilters = [],
                   req_StreamUpdates = True, req_StreamCreates = True\<rparr>"
      and ws = world0 and chan = "[]" and t = "\<lparr>pt_BeforeID = None, pt_Size = 0\<rparr>"
      and e = "ErrorString ''connection lost''"]
  by (simp add: utils0_def repos0_def world0_def)

section \<open>UpdateApp: the fields written\<close>

lemma dom_appData:
  "dom (appData app) =
     {''meta''} \<union> (if app_Strategy app \<noteq> '''' then {''strategy''} else {}) \<union>
     (if 0 < app_DeployTimeout app then {''deploy_timeout''} else {})"
  by (auto simp: appData_def Let_def split: if_splits)

lemma maskData_eq:
  "maskData data paths acc = acc ++ (data |` (maskAlias ` set paths))"
proof (induction paths arbitrary: acc)
  case Nil
  show ?case by simp
next
  case (Cons p ps)
  show ?case
  proof (rule ext)
    fix k
    show "maskData data (p # ps) acc k = (acc ++ (data |` (maskAlias ` set (p # ps)))) k"
      using Cons.IH
      by (auto simp: maskAlias_def Let_def map_add_def restrict_map_def
          split: option.splits if_splits)
  qed
qed

text \<open>
  C5 (as stated): without a field mask exactly the non-zero fields are written. It fails at
  an app whose labels are empty: \<^verbatim>\<open>"meta"\<close> is put into the map unconditionally, so it is
  written although its value is the zero value.
\<close>

theorem UpdateApp_zero_labels_counterexample:
  "dom (updateAppData \<lparr>uar_App = \<lparr>app_Name = ''apps/a'', app_Labels = Map.empty,
          app_Strategy = '''', app_DeployTimeout = 0\<rparr>, uar_UpdateMask = None\<rparr>) = {''meta''}
   \<and> nonZeroFields \<lparr>app_Name = ''apps/a'', app_Labels = Map.empty,
          app_Strategy = '''', app_DeployTimeout = 0\<rparr> = {}
   \<and> dom (updateAppData \<lparr>uar_App = \<lparr>app_Name = ''apps/a'', app_Labels = Map.empty,
          app_Strategy = '''', app_DeployTimeout = 0\<rparr>, uar_UpdateMask = None\<rparr>)
       \<noteq> nonZeroFields \<lparr>app_Name = ''apps/a'', app_Labels = Map.empty,
          app_Strategy = '''', app_DeployTimeout = 0\<rparr>"
  by (simp add: updateAppData_def appData_def nonZeroFields_def)

text \<open>
  C5 (amended): with no mask, or a mask without paths, the fields written are
  \<^verbatim>\<open>meta\<close> (always, with the labels as they are, empty or not), \<^verbatim>\<open>strategy\<close> exactly when
  the strategy is not empty, and \<^verbatim>\<open>deploy_timeout\<close> exactly when the timeout is positive.
  With a mask that has paths, the fields written are those of that map that a path names,
  where the path \<^verbatim>\<open>labels\<close> names \<^verbatim>\<open>meta\<close>.
\<close>

theorem UpdateApp_fields_written:
  "dom (appData (uar_App req)) =
     {''meta''} \<union> (if app_Strategy (uar_App req) \<noteq> '''' then {''strategy''} else {}) \<union>
     (if 0 < app_DeployTimeout (uar_App req) then {''deploy_timeout''} else {})
   \<and> appData (uar_App req) ''meta'' = Some (VLabels (app_Labels (uar_App req)))
   \<and> (uar_UpdateMask req = None \<or> uar_UpdateMask req = Some [] \<longrightarrow>
        updateAppData req = appData (uar_App req))
   \<and> (\<forall>paths. uar_UpdateMask req = Some paths \<and> paths \<noteq> [] \<longrightarrow>
        updateAppData req = appData (uar_App req) |` (maskAlias ` set paths))"
proof (intro conjI)
  show "appData (uar_App req) ''meta'' = Some (VLabels (app_Labels (uar_App req)))"
    by (simp add: appData_def Let_def)
  show "uar_UpdateMask req = None \<or> uar_UpdateMask req = Some [] \<longrightarrow>
      updateAppData req = appData (uar_App req)"
    by (auto simp: updateAppData_def)
  show "\<forall>paths. uar_UpdateMask req = Some paths \<and> paths \<noteq> [] \<longrightarrow>
      updateAppData req = appData (uar_App req) |` (maskAlias ` set paths)"
    by (simp add: updateAppData_def maskData_eq)
  show "dom (appData (uar_App req)) =
     {''meta''} \<union> (if app_Strategy (uar_App req) \<noteq> '''' then {''strategy''} else {}) \<union>
     (if 0 < app_DeployTimeout (uar_App req) then {''deploy_timeout''} else {})"
    by (rule dom_appData)
qed

theorem UpdateApp_fields_written_witness:
  "updateAppData \<lparr>uar_App = \<lparr>app_Name = ''apps/a'', app_Labels = Map.empty,
          app_Strategy = ''all-at-once'', app_DeployTimeout = 30\<rparr>,
        uar_UpdateMask = Some [''labels'', ''name'']\<rparr>
     = appData \<lparr>app_Name = ''apps/a'', app_Labels = Map.empty,
          app_Strategy = ''all-at-once'', app_DeployTimeout = 30\<rparr> |` {''name'', ''meta''}
   \<and> dom (appData \<lparr>app_Name = ''apps/a'', app_Labels = Map.empty,
          app_Strategy = ''all-at-once'', app_DeployTimeout = 30\<rparr>)
     = {''deploy_timeout'', ''strategy'', ''meta''}"
  using UpdateApp_fields_written [of "\<lparr>uar_App = \<lparr>app_Name = ''apps/a'', app_Labels = Map.empty,
          app_Strategy = ''all-at-once'', app_DeployTimeout = 30\<rparr>,
        uar_UpdateMask = Some [''labels'', ''name'']\<rparr>"]
  by (simp add: maskAlias_def)


end
